theory Spec2Isabelle
  imports Complex_Main "HOL-Library.Multiset"
begin

section \<open>Data model of backend/server.py\<close>

text \<open>
  The pydantic models become records. Record fields share one name space, so each field
  carries a short prefix naming its model (\<open>u_\<close> User, \<open>c_\<close> UserCreate, \<open>l_\<close> UserLogin,
  \<open>r_\<close> LoginResponse, \<open>s_\<close> Student, \<open>a_\<close> Attendance, \<open>g_\<close> Grade, \<open>n_\<close> Announcement). A model that the source
  builds from another one by adding fields (\<open>Student(**student_data.model_dump(), user_id=...)\<close>,
  the stored user document, which is the \<open>User\<close> dump plus \<open>password\<close>) is a record extension.

  \<open>Literal["admin", "teacher", "student", "parent"]\<close> is a datatype; \<open>role_str\<close> gives the string
  the source compares with the free-form \<open>target_role\<close> of an announcement. A \<open>datetime\<close> is
  an integer count of time units since the epoch (UTC); \<open>isoformat\<close> followed by
  \<open>fromisoformat\<close> gives the same instant back, so the stored string is represented by the
  instant it denotes, and comparing the stored strings is comparing the instants.
\<close>

type_synonym datetime = int

datatype Role = Admin | Teacher | Student | Parent

fun role_str :: "Role \<Rightarrow> string" where
  "role_str Admin = ''admin''"
| "role_str Teacher = ''teacher''"
| "role_str Student = ''student''"
| "role_str Parent = ''parent''"

datatype Status = Present | Absent | Late

record User =
  u_id :: string
  u_username :: string
  u_role :: Role
  u_full_name :: string
  u_email :: "string option"
  u_created_at :: datetime

text \<open>A document of \<open>db.users\<close>: \<open>user_obj.model_dump()\<close> with \<open>doc['password']\<close> added.\<close>

record UserDoc = User +
  u_password :: string

record UserCreate =
  c_username :: string
  c_password :: string
  c_role :: Role
  c_full_name :: string
  c_email :: "string option"

record UserLogin =
  l_username :: string
  l_password :: string

record StudentCreate =
  s_full_name :: string
  s_roll_number :: string
  s_class_name :: string
  s_section :: string
  s_parent_id :: "string option"
  s_date_of_birth :: "string option"
  s_address :: "string option"
  s_phone :: "string option"

record StudentDoc = StudentCreate +
  s_id :: string
  s_user_id :: string
  s_created_at :: datetime

record Attendance =
  a_id :: string
  a_student_id :: string
  a_student_name :: string
  a_date :: string
  a_status :: Status
  a_subject :: "string option"
  a_marked_by :: string
  a_created_at :: datetime

text \<open>\<open>marks\<close> and \<open>max_marks\<close> are floats in the source; no operation modelled here computes with them.\<close>

record Grade =
  g_id :: string
  g_student_id :: string
  g_student_name :: string
  g_subject :: string
  g_exam_type :: string
  g_marks :: real
  g_max_marks :: real
  g_date :: string
  g_teacher_id :: string
  g_created_at :: datetime

record Announcement =
  n_id :: string
  n_title :: string
  n_content :: string
  n_author :: string
  n_target_role :: "string option"
  n_created_at :: datetime

text \<open>The database \<open>db\<close>: one list of documents per collection, in insertion order.\<close>

record db =
  users :: "UserDoc list"
  students :: "StudentDoc list"
  attendance :: "Attendance list"
  grades :: "Grade list"
  announcements :: "Announcement list"

text \<open>\<open>raise HTTPException(status_code=..., detail=...)\<close> is the left injection of a sum.\<close>

datatype HTTPException = HTTPException (status_code: nat) (detail: string)

section \<open>The document store operations the handlers call\<close>

text \<open>
  A query document is the predicate it denotes: \<open>{"id": student_id}\<close> is
  \<open>\<lambda>s. s_id s = student_id\<close>, \<open>{}\<close> is \<open>\<lambda>_. True\<close>. \<open>find_one\<close> gives the first
  matching document or \<open>None\<close>; \<open>delete_one\<close> and \<open>update_one\<close> touch the first matching
  document only; \<open>delete_one\<close> also gives \<open>deleted_count\<close>.
\<close>

definition find_one :: "('a \<Rightarrow> bool) \<Rightarrow> 'a list \<Rightarrow> 'a option" where
  "find_one q coll = List.find q coll"

definition insert_one :: "'a \<Rightarrow> 'a list \<Rightarrow> 'a list" where
  "insert_one doc coll = coll @ [doc]"

definition count_documents :: "('a \<Rightarrow> bool) \<Rightarrow> 'a list \<Rightarrow> nat" where
  "count_documents q coll = length (filter q coll)"

fun delete_one :: "('a \<Rightarrow> bool) \<Rightarrow> 'a list \<Rightarrow> 'a list \<times> nat" where
  "delete_one q [] = ([], 0)"
| "delete_one q (x # xs) =
     (if q x then (xs, 1) else (case delete_one q xs of (ys, n) \<Rightarrow> (x # ys, n)))"

fun update_one :: "('a \<Rightarrow> bool) \<Rightarrow> ('a \<Rightarrow> 'a) \<Rightarrow> 'a list \<Rightarrow> 'a list" where
  "update_one q f [] = []"
| "update_one q f (x # xs) = (if q x then f x # xs else x # update_one q f xs)"

text \<open>\<open>find(q).sort("created_at", -1).to_list(n)\<close>: the matching documents, newest first, at most \<open>n\<close>.\<close>

definition find_many :: "('a \<Rightarrow> bool) \<Rightarrow> 'a list \<Rightarrow> 'a list" where
  "find_many q coll = filter q coll"

definition sort_desc :: "('a \<Rightarrow> datetime) \<Rightarrow> 'a list \<Rightarrow> 'a list" where
  "sort_desc k xs = sort_key (\<lambda>x. - k x) xs"

definition to_list :: "nat \<Rightarrow> 'a list \<Rightarrow> 'a list" where
  "to_list n xs = take n xs"

section \<open>Tokens\<close>

text \<open>
  \<open>import jwt\<close> with module-level \<open>jwt.encode(payload, key, algorithm=...)\<close> and
  \<open>jwt.decode(token, key, algorithms=[...])\<close> is the PyJWT library, which is outside the
  repository. The model keeps what the handlers rely on: a token is either a string that
  is no token at all, or a payload signed with some key; \<open>jwt_decode\<close> checks the
  structure, then the signature, then the \<open>exp\<close> claim against the clock, and raises
  \<open>DecodeError\<close>, \<open>InvalidSignatureError\<close> or \<open>ExpiredSignatureError\<close> accordingly.
  \<open>exp\<close> and the clock are whole seconds since the epoch; a token whose \<open>exp\<close> is the
  current second has expired.
\<close>

record Payload =
  p_sub :: "string option"
  p_role :: "string option"
  p_exp :: int

datatype token = Malformed string | Signed string Payload

datatype jwt_error = ExpiredSignatureError | DecodeError | InvalidSignatureError

definition JWT_EXPIRATION_HOURS :: int where
  "JWT_EXPIRATION_HOURS = 24"

definition jwt_encode :: "Payload \<Rightarrow> string \<Rightarrow> token" where
  "jwt_encode to_encode key = Signed key to_encode"

fun jwt_decode :: "token \<Rightarrow> string \<Rightarrow> int \<Rightarrow> jwt_error + Payload" where
  "jwt_decode (Malformed t) key now = Inl DecodeError"
| "jwt_decode (Signed k p) key now =
     (if k \<noteq> key then Inl InvalidSignatureError
      else if p_exp p \<le> now then Inl ExpiredSignatureError
      else Inr p)"

text \<open>
  \<open>create_access_token(data={"sub": ..., "role": ...})\<close>; \<open>now\<close> is the clock read by
  \<open>datetime.now(timezone.utc)\<close>, \<open>JWT_SECRET\<close> the configured secret.
\<close>

definition create_access_token :: "string \<Rightarrow> int \<Rightarrow> string option \<Rightarrow> string option \<Rightarrow> token" where
  "create_access_token JWT_SECRET now sub role =
     (let expire = now + JWT_EXPIRATION_HOURS * 3600;
          to_encode = \<lparr>p_sub = sub, p_role = role, p_exp = expire\<rparr>
      in jwt_encode to_encode JWT_SECRET)"

text \<open>
  \<open>get_current_user\<close> is a \<open>try\<close> block with two \<open>except\<close> clauses. What the block can
  raise is an exception of the library or one of the handler's own \<open>HTTPException\<close>s:
  both \<open>raise HTTPException(...)\<close> statements stand inside the \<open>try\<close>.
\<close>

datatype raised = JwtError jwt_error | Http HTTPException

definition try_block :: "string \<Rightarrow> int \<Rightarrow> db \<Rightarrow> token \<Rightarrow> raised + UserDoc" where
  "try_block JWT_SECRET now d tok =
     (case jwt_decode tok JWT_SECRET now of
        Inl e \<Rightarrow> Inl (JwtError e)
      | Inr payload \<Rightarrow>
          (case p_sub payload of
             None \<Rightarrow> Inl (Http (HTTPException 401 ''Invalid authentication credentials''))
           | Some user_id \<Rightarrow>
               (case find_one (\<lambda>u. u_id u = user_id) (users d) of
                  None \<Rightarrow> Inl (Http (HTTPException 401 ''User not found''))
                | Some user \<Rightarrow> Inr user)))"

text \<open>
  The clauses are tried in order. \<open>except jwt.ExpiredSignatureError\<close> catches that class
  and raises the 401 "Token has expired". For every other exception Python goes on to
  \<open>except jwt.JWTError\<close> and evaluates the expression \<open>jwt.JWTError\<close> to match against
  it. PyJWT has no attribute of that name (its base class is \<open>PyJWTError\<close>), so the
  lookup raises \<open>AttributeError\<close> in place of the exception being handled, and the
  clause body, the 401 "Could not validate credentials", is never reached. Nothing
  catches the \<open>AttributeError\<close>; as for any unhandled exception the framework answers
  with status 500.
\<close>

fun except_clauses :: "raised \<Rightarrow> HTTPException" where
  "except_clauses (JwtError ExpiredSignatureError) = HTTPException 401 ''Token has expired''"
| "except_clauses (JwtError DecodeError) = HTTPException 500 ''Internal Server Error''"
| "except_clauses (JwtError InvalidSignatureError) = HTTPException 500 ''Internal Server Error''"
| "except_clauses (Http e) = HTTPException 500 ''Internal Server Error''"

definition get_current_user :: "string \<Rightarrow> int \<Rightarrow> db \<Rightarrow> token \<Rightarrow> HTTPException + UserDoc" where
  "get_current_user JWT_SECRET now d tok =
     (case try_block JWT_SECRET now d tok of
        Inl e \<Rightarrow> Inl (except_clauses e)
      | Inr user \<Rightarrow> Inr user)"

section \<open>Authentication routes\<close>

text \<open>
  \<open>hash_password\<close> and \<open>verify_password\<close> wrap the passlib context and are parameters;
  \<open>new_id\<close> is the value \<open>uuid.uuid4()\<close> produces for the new document and \<open>now\<close> the
  clock read for its \<open>created_at\<close>. A handler that writes returns its result together
  with the database it leaves behind.
\<close>

definition register ::
  "(string \<Rightarrow> string) \<Rightarrow> string \<Rightarrow> datetime \<Rightarrow> UserCreate \<Rightarrow> db \<Rightarrow> (HTTPException + User) \<times> db" where
  "register hash_password new_id now user_data d =
     (case find_one (\<lambda>u. u_username u = c_username user_data) (users d) of
        Some existing_user \<Rightarrow> (Inl (HTTPException 400 ''Username already exists''), d)
      | None \<Rightarrow>
          (let hashed_password = hash_password (c_password user_data);
               user_obj = \<lparr>u_id = new_id, u_username = c_username user_data,
                           u_role = c_role user_data, u_full_name = c_full_name user_data,
                           u_email = c_email user_data, u_created_at = now\<rparr>;
               doc = User.extend user_obj (UserDoc.fields hashed_password)
           in (Inr user_obj, d\<lparr>users := insert_one doc (users d)\<rparr>)))"

record LoginResponse =
  r_access_token :: token
  r_token_type :: string
  r_user :: User

definition login ::
  "(string \<Rightarrow> string \<Rightarrow> bool) \<Rightarrow> string \<Rightarrow> int \<Rightarrow> UserLogin \<Rightarrow> db \<Rightarrow> HTTPException + LoginResponse" where
  "login verify_password JWT_SECRET now login_data d =
     (case find_one (\<lambda>u. u_username u = l_username login_data) (users d) of
        None \<Rightarrow> Inl (HTTPException 401 ''Invalid username or password'')
      | Some user \<Rightarrow>
          if \<not> verify_password (l_password login_data) (u_password user)
          then Inl (HTTPException 401 ''Invalid username or password'')
          else
            (let access_token = create_access_token JWT_SECRET now
                                  (Some (u_id user)) (Some (role_str (u_role user)));
                 user_obj = User.truncate user
             in Inr \<lparr>r_access_token = access_token, r_token_type = ''bearer'', r_user = user_obj\<rparr>))"

section \<open>Student management routes\<close>

text \<open>
  Every handler below takes \<open>current_user\<close>, the document \<open>Depends(get_current_user)\<close>
  resolved from the bearer token. \<open>if not student\<close> tests for \<open>None\<close>: a stored document
  is never the empty dict.
\<close>

definition create_student ::
  "UserDoc \<Rightarrow> string \<Rightarrow> datetime \<Rightarrow> StudentCreate \<Rightarrow> db \<Rightarrow> (HTTPException + StudentDoc) \<times> db" where
  "create_student current_user new_id now student_data d =
     (if u_role current_user \<notin> set [Admin, Teacher]
      then (Inl (HTTPException 403 ''Not authorized''), d)
      else
        (let student_obj = StudentCreate.extend student_data
                             (StudentDoc.fields new_id (u_id current_user) now)
         in (Inr student_obj, d\<lparr>students := insert_one student_obj (students d)\<rparr>)))"

definition get_students :: "UserDoc \<Rightarrow> db \<Rightarrow> StudentDoc list" where
  "get_students current_user d = to_list 1000 (find_many (\<lambda>_. True) (students d))"

definition get_student :: "UserDoc \<Rightarrow> string \<Rightarrow> db \<Rightarrow> HTTPException + StudentDoc" where
  "get_student current_user student_id d =
     (case find_one (\<lambda>s. s_id s = student_id) (students d) of
        None \<Rightarrow> Inl (HTTPException 404 ''Student not found'')
      | Some student \<Rightarrow> Inr student)"

text \<open>\<open>{"$set": student_data.model_dump()}\<close>: the eight keys of \<open>StudentCreate\<close>, each set to the payload's value.\<close>

definition set_update_data :: "StudentCreate \<Rightarrow> StudentDoc \<Rightarrow> StudentDoc" where
  "set_update_data update_data s =
     s\<lparr>s_full_name := s_full_name update_data,
       s_roll_number := s_roll_number update_data,
       s_class_name := s_class_name update_data,
       s_section := s_section update_data,
       s_parent_id := s_parent_id update_data,
       s_date_of_birth := s_date_of_birth update_data,
       s_address := s_address update_data,
       s_phone := s_phone update_data\<rparr>"

text \<open>
  The second \<open>find_one\<close> of \<open>update_student\<close> is not tested against \<open>None\<close> in the source;
  calling \<open>.get\<close> on \<open>None\<close> would be an unhandled exception, which the framework answers
  with status 500.
\<close>

definition update_student ::
  "UserDoc \<Rightarrow> string \<Rightarrow> StudentCreate \<Rightarrow> db \<Rightarrow> (HTTPException + StudentDoc) \<times> db" where
  "update_student current_user student_id student_data d =
     (if u_role current_user \<notin> set [Admin, Teacher]
      then (Inl (HTTPException 403 ''Not authorized''), d)
      else
        (case find_one (\<lambda>s. s_id s = student_id) (students d) of
           None \<Rightarrow> (Inl (HTTPException 404 ''Student not found''), d)
         | Some existing \<Rightarrow>
             (let d' = d\<lparr>students := update_one (\<lambda>s. s_id s = student_id)
                                       (set_update_data student_data) (students d)\<rparr>
              in (case find_one (\<lambda>s. s_id s = student_id) (students d') of
                    None \<Rightarrow> (Inl (HTTPException 500 ''Internal Server Error''), d')
                  | Some updated_student \<Rightarrow> (Inr updated_student, d')))))"

definition delete_student :: "UserDoc \<Rightarrow> string \<Rightarrow> db \<Rightarrow> (HTTPException + string) \<times> db" where
  "delete_student current_user student_id d =
     (if u_role current_user \<noteq> Admin
      then (Inl (HTTPException 403 ''Not authorized''), d)
      else
        (case delete_one (\<lambda>s. s_id s = student_id) (students d) of
           (coll, deleted_count) \<Rightarrow>
             (if deleted_count = 0
              then (Inl (HTTPException 404 ''Student not found''), d\<lparr>students := coll\<rparr>)
              else (Inr ''Student deleted successfully'', d\<lparr>students := coll\<rparr>))))"

section \<open>Announcements and dashboard\<close>

definition get_announcements :: "UserDoc \<Rightarrow> db \<Rightarrow> Announcement list" where
  "get_announcements current_user d =
     (let query = (if u_role current_user \<noteq> Admin
                   then (\<lambda>a. n_target_role a = None
                            \<or> n_target_role a = Some (role_str (u_role current_user)))
                   else (\<lambda>_. True))
      in to_list 100 (sort_desc n_created_at (find_many query (announcements d))))"

text \<open>
  \<open>stats\<close> is a dict filled key by key: an association list in insertion order, \<open>[]\<close> for
  \<open>{}\<close>. \<open>today\<close> is \<open>datetime.now(timezone.utc).strftime("%Y-%m-%d")\<close>. The handler has
  no \<open>raise\<close>: it returns \<open>stats\<close> on every path.
\<close>

definition get_dashboard_stats :: "string \<Rightarrow> UserDoc \<Rightarrow> db \<Rightarrow> (string \<times> nat) list" where
  "get_dashboard_stats today current_user d =
     (case u_role current_user of
        Admin \<Rightarrow>
          [(''total_students'', count_documents (\<lambda>_. True) (students d)),
           (''total_teachers'', count_documents (\<lambda>u. u_role u = Teacher) (users d)),
           (''total_parents'', count_documents (\<lambda>u. u_role u = Parent) (users d)),
           (''total_announcements'', count_documents (\<lambda>_. True) (announcements d)),
           (''today_present'',
              count_documents (\<lambda>a. a_date a = today \<and> a_status a = Present) (attendance d)),
           (''today_absent'',
              count_documents (\<lambda>a. a_date a = today \<and> a_status a = Absent) (attendance d))]
      | Teacher \<Rightarrow>
          [(''total_students'', count_documents (\<lambda>_. True) (students d)),
           (''classes_today'', 5),
           (''pending_grades'', 12)]
      | Student \<Rightarrow>
          (case find_one (\<lambda>s. s_user_id s = u_id current_user) (students d) of
             None \<Rightarrow> []
           | Some student \<Rightarrow>
               [(''total_attendance'',
                   count_documents (\<lambda>a. a_student_id a = s_id student) (attendance d)),
                (''present_days'',
                   count_documents (\<lambda>a. a_student_id a = s_id student \<and> a_status a = Present)
                     (attendance d)),
                (''total_grades'',
                   count_documents (\<lambda>g. g_student_id g = s_id student) (grades d))])
      | Parent \<Rightarrow>
          [(''children_count'',
              count_documents (\<lambda>s. s_parent_id s = Some (u_id current_user)) (students d)),
           (''announcements_count'',
              count_documents (\<lambda>a. n_target_role a = None \<or> n_target_role a = Some ''parent'')
                (announcements d)),
           (''events_count'', 3)])"

section \<open>Sample data\<close>

definition ex_alice :: UserDoc where
  "ex_alice = \<lparr>u_id = ''u1'', u_username = ''alice'', u_role = Teacher, u_full_name = ''Alice'',
                u_email = None, u_created_at = 0, u_password = ''hash:secret''\<rparr>"

definition ex_db :: db where
  "ex_db = \<lparr>users = [ex_alice], students = [], attendance = [], grades = [], announcements = []\<rparr>"

definition ex_verify :: "string \<Rightarrow> string \<Rightarrow> bool" where
  "ex_verify plain hashed = (hashed = ''hash:'' @ plain)"

definition ex_admin :: UserDoc where
  "ex_admin = \<lparr>u_id = ''u0'', u_username = ''root'', u_role = Admin, u_full_name = ''Root'',
                u_email = None, u_created_at = 0, u_password = ''hash:admin''\<rparr>"

definition ex_form :: StudentCreate where
  "ex_form = \<lparr>s_full_name = ''Carol'', s_roll_number = ''7'', s_class_name = ''5'', s_section = ''B'',
               s_parent_id = Some ''u5'', s_date_of_birth = None, s_address = None, s_phone = None\<rparr>"

definition ex_student :: StudentDoc where
  "ex_student = \<lparr>s_full_name = ''Dan'', s_roll_number = ''3'', s_class_name = ''5'', s_section = ''A'',
               s_parent_id = None, s_date_of_birth = None, s_address = None, s_phone = Some ''555'',
               s_id = ''s1'', s_user_id = ''u1'', s_created_at = 4\<rparr>"

definition ex_db2 :: db where
  "ex_db2 = \<lparr>users = [ex_admin, ex_alice], students = [ex_student], attendance = [], grades = [],
              announcements = []\<rparr>"

definition ex_parent :: UserDoc where
  "ex_parent = \<lparr>u_id = ''u5'', u_username = ''pat'', u_role = Parent, u_full_name = ''Pat'',
                 u_email = None, u_created_at = 1, u_password = ''hash:pat''\<rparr>"

definition ex_note_teacher :: Announcement where
  "ex_note_teacher = \<lparr>n_id = ''n1'', n_title = ''Staff meeting'', n_content = ''Room 2'',
                       n_author = ''Root'', n_target_role = Some ''teacher'', n_created_at = 30\<rparr>"

definition ex_note_all :: Announcement where
  "ex_note_all = \<lparr>n_id = ''n2'', n_title = ''Holiday'', n_content = ''Friday'',
                   n_author = ''Root'', n_target_role = None, n_created_at = 10\<rparr>"

definition ex_note_parent :: Announcement where
  "ex_note_parent = \<lparr>n_id = ''n3'', n_title = ''Parents evening'', n_content = ''Hall'',
                      n_author = ''Alice'', n_target_role = Some ''parent'', n_created_at = 20\<rparr>"

definition ex_db3 :: db where
  "ex_db3 = \<lparr>users = [ex_admin, ex_alice, ex_parent], students = [], attendance = [], grades = [],
              announcements = [ex_note_teacher, ex_note_all, ex_note_parent]\<rparr>"

definition ex_pupil :: UserDoc where
  "ex_pupil = \<lparr>u_id = ''u7'', u_username = ''dan'', u_role = Student, u_full_name = ''Dan'',
                u_email = None, u_created_at = 2, u_password = ''hash:dan''\<rparr>"

definition ex_student_dan :: StudentDoc where
  "ex_student_dan = \<lparr>s_full_name = ''Dan'', s_roll_number = ''3'', s_class_name = ''5'',
               s_section = ''A'', s_parent_id = None, s_date_of_birth = None, s_address = None,
               s_phone = None, s_id = ''s7'', s_user_id = ''u7'', s_created_at = 4\<rparr>"

definition ex_mark :: "string \<Rightarrow> string \<Rightarrow> string \<Rightarrow> Status \<Rightarrow> Attendance" where
  "ex_mark i sid day st = \<lparr>a_id = i, a_student_id = sid, a_student_name = ''Dan'', a_date = day,
               a_status = st, a_subject = None, a_marked_by = ''u1'', a_created_at = 5\<rparr>"

definition ex_grade :: Grade where
  "ex_grade = \<lparr>g_id = ''g1'', g_student_id = ''s7'', g_student_name = ''Dan'', g_subject = ''Maths'',
               g_exam_type = ''quiz'', g_marks = 8, g_max_marks = 10, g_date = ''2025-01-10'',
               g_teacher_id = ''u1'', g_created_at = 6\<rparr>"

definition ex_db4 :: db where
  "ex_db4 = \<lparr>users = [ex_alice, ex_pupil], students = [ex_student, ex_student_dan],
              attendance = [ex_mark ''a1'' ''s7'' ''2025-01-10'' Present,
                            ex_mark ''a2'' ''s7'' ''2025-01-11'' Absent,
                            ex_mark ''a3'' ''s1'' ''2025-01-11'' Present,
                            ex_mark ''a4'' ''s7'' ''2025-01-12'' Present],
              grades = [ex_grade], announcements = []\<rparr>"

section \<open>Facts about the store operations\<close>

lemma find_one_None_iff: "find_one q coll = None \<longleftrightarrow> (\<forall>x\<in>set coll. \<not> q x)"
  by (auto simp: find_one_def find_None_iff)

lemma find_one_Some_sat: "find_one q coll = Some x \<Longrightarrow> q x \<and> x \<in> set coll"
  by (auto simp: find_one_def find_Some_iff)

lemma find_one_append:
  "find_one q (xs @ ys) = (case find_one q xs of None \<Rightarrow> find_one q ys | Some x \<Rightarrow> Some x)"
  by (induction xs) (auto simp: find_one_def)

lemma delete_one_count_zero: "snd (delete_one q xs) = 0 \<longleftrightarrow> (\<forall>x\<in>set xs. \<not> q x)"
  by (induction xs) (auto split: prod.splits)

lemma delete_one_subset: "set (fst (delete_one q xs)) \<subseteq> set xs"
  by (induction xs) (auto split: prod.splits)

lemma delete_one_distinct_key:
  "distinct (map k xs) \<Longrightarrow> \<exists>x\<in>set xs. k x = v \<Longrightarrow>
     \<forall>x\<in>set (fst (delete_one (\<lambda>s. k s = v) xs)). k x \<noteq> v"
proof (induction xs)
  case Nil
  then show ?case by simp
next
  case (Cons a xs)
  show ?case
  proof (cases "k a = v")
    case True
    with Cons.prems(1) show ?thesis by (auto simp: image_iff)
  next
    case False
    with Cons.prems have "distinct (map k xs)" and "\<exists>x\<in>set xs. k x = v" by auto
    from Cons.IH [OF this] False show ?thesis by (auto split: prod.splits)
  qed
qed

lemma update_one_first:
  "find_one q xs = Some x \<Longrightarrow>
     \<exists>i<length xs. xs ! i = x \<and> (\<forall>j<i. \<not> q (xs ! j)) \<and> update_one q f xs = xs[i := f x]"
proof (induction xs)
  case Nil
  then show ?case by (simp add: find_one_def)
next
  case (Cons a xs)
  show ?case
  proof (cases "q a")
    case True
    with Cons.prems have "a = x" by (simp add: find_one_def)
    with True show ?thesis by (intro exI [of _ 0]) simp
  next
    case False
    with Cons.prems have "find_one q xs = Some x" by (simp add: find_one_def)
    from Cons.IH [OF this] obtain i where i: "i < length xs" "xs ! i = x"
      "\<forall>j<i. \<not> q (xs ! j)" "update_one q f xs = xs[i := f x]" by blast
    have "\<forall>j<Suc i. \<not> q ((a # xs) ! j)"
      using False i(3) by (auto simp: less_Suc_eq_0_disj)
    with i False show ?thesis by (intro exI [of _ "Suc i"]) simp
  qed
qed

lemma find_one_update_one:
  "find_one q xs = Some x \<Longrightarrow> q (f x) \<Longrightarrow> find_one q (update_one q f xs) = Some (f x)"
  by (induction xs) (auto simp: find_one_def split: if_splits)

lemma sort_desc_newest_first: "sorted_wrt (\<lambda>a b. k b \<le> k a) (sort_desc k xs)"
proof -
  have "sorted (map (\<lambda>x. - k x) (sort_key (\<lambda>x. - k x) xs))" by (rule sorted_sort_key)
  then show ?thesis by (simp add: sort_desc_def sorted_map)
qed

lemma mset_sort_desc: "mset (sort_desc k xs) = mset xs"
  by (simp add: sort_desc_def)

lemma take_sort_desc_newest_first: "sorted_wrt (\<lambda>a b. k b \<le> k a) (take n (sort_desc k xs))"
  by (rule sorted_wrt_take [OF sort_desc_newest_first])

lemma length_take_sort_desc: "length (take n (sort_desc k xs)) = min n (length xs)"
proof -
  have "length (sort_desc k xs) = length xs" by (simp add: sort_desc_def)
  then show ?thesis by simp
qed

lemma mset_take_drop: "mset (take n ys) + mset (drop n ys) = mset ys"
  by (metis append_take_drop_id mset_append)

lemma mset_take_sort_desc_subset: "mset (take n (sort_desc k xs)) \<subseteq># mset xs"
proof -
  have "mset (take n (sort_desc k xs)) \<subseteq># mset (sort_desc k xs)"
    using mset_take_drop [of n "sort_desc k xs"] by (metis mset_subset_eq_add_left)
  then show ?thesis by (simp add: mset_sort_desc)
qed

lemma mset_take_sort_desc_all:
  "length xs \<le> n \<Longrightarrow> mset (take n (sort_desc k xs)) = mset xs"
proof -
  assume "length xs \<le> n"
  then have "length (sort_desc k xs) \<le> n" by (simp add: sort_desc_def)
  then show ?thesis by (simp add: mset_sort_desc)
qed

lemma dropped_are_older:
  assumes "a \<in># mset xs - mset (take n (sort_desc k xs))"
    and "b \<in> set (take n (sort_desc k xs))"
  shows "k a \<le> k b"
proof -
  let ?ys = "sort_desc k xs"
  have "mset xs = mset (take n ?ys) + mset (drop n ?ys)"
    using mset_take_drop [of n ?ys] mset_sort_desc [of k xs] by simp
  then have "mset xs - mset (take n ?ys) = mset (drop n ?ys)"
    by simp
  with assms(1) have a: "a \<in> set (drop n ?ys)" by simp
  have "sorted_wrt (\<lambda>a b. k b \<le> k a) (take n ?ys @ drop n ?ys)"
    by (simp add: sort_desc_newest_first)
  then have "\<forall>x\<in>set (take n ?ys). \<forall>y\<in>set (drop n ?ys). k y \<le> k x"
    unfolding sorted_wrt_append by blast
  with a assms(2) show ?thesis by blast
qed

lemma get_announcements_eq:
  "get_announcements current_user d =
     take 100 (sort_desc n_created_at
       (filter (\<lambda>a. u_role current_user = Admin \<or> n_target_role a = None
                  \<or> n_target_role a = Some (role_str (u_role current_user)))
         (announcements d)))"
  by (simp add: get_announcements_def to_list_def find_many_def Let_def)

section \<open>Registration and login\<close>

text \<open>
  C1. A register request whose username is the username of a stored user fails with
  status 400 and detail "Username already exists", and the database it leaves behind is
  the database it found: every stored record as before, nothing inserted.
\<close>

theorem register_duplicate_username:
  assumes "u \<in> set (users d)" and "u_username u = c_username user_data"
  shows "register hash_password new_id now user_data d =
           (Inl (HTTPException 400 ''Username already exists''), d)"
proof -
  from assms have "find_one (\<lambda>x. u_username x = c_username user_data) (users d) \<noteq> None"
    by (auto simp: find_one_None_iff)
  then obtain e where "find_one (\<lambda>x. u_username x = c_username user_data) (users d) = Some e"
    by blast
  then show ?thesis by (simp add: register_def)
qed

theorem register_duplicate_username_witness:
  "ex_alice \<in> set (users ex_db)
   \<and> u_username ex_alice = c_username \<lparr>c_username = ''alice'', c_password = ''pw'', c_role = Admin,
                                        c_full_name = ''Alice B'', c_email = None\<rparr>
   \<and> register (\<lambda>p. ''hash:'' @ p) ''u2'' 5
       \<lparr>c_username = ''alice'', c_password = ''pw'', c_role = Admin,
          c_full_name = ''Alice B'', c_email = None\<rparr> ex_db
     = (Inl (HTTPException 400 ''Username already exists''), ex_db)"
proof -
  have a: "ex_alice \<in> set (users ex_db)"
    by (simp add: ex_db_def)
  have b: "u_username ex_alice = c_username \<lparr>c_username = ''alice'', c_password = ''pw'',
             c_role = Admin, c_full_name = ''Alice B'', c_email = None\<rparr>"
    by (simp add: ex_alice_def)
  show ?thesis
    using register_duplicate_username [OF a b] a b by simp
qed

text \<open>
  C2. A login request fails when no stored user has the username, and when the first
  stored user with the username has a password hash the given password does not verify
  against. In both cases the result is status 401 with detail "Invalid username or
  password", so any two failing requests (on any two databases, at any two times) get the
  same answer.
\<close>

theorem login_failure_uniform:
  assumes "find_one (\<lambda>u. u_username u = l_username login_data) (users d) = None
           \<or> (\<exists>usr. find_one (\<lambda>u. u_username u = l_username login_data) (users d) = Some usr
                 \<and> \<not> verify_password (l_password login_data) (u_password usr))"
    and "find_one (\<lambda>u. u_username u = l_username login_data') (users d') = None
           \<or> (\<exists>usr. find_one (\<lambda>u. u_username u = l_username login_data') (users d') = Some usr
                 \<and> \<not> verify_password (l_password login_data') (u_password usr))"
  shows "login verify_password JWT_SECRET now login_data d
           = Inl (HTTPException 401 ''Invalid username or password'')
         \<and> login verify_password JWT_SECRET now' login_data' d'
           = login verify_password JWT_SECRET now login_data d"
  using assms by (auto simp: login_def)

theorem login_failure_uniform_witness:
  "login ex_verify ''key'' 10 \<lparr>l_username = ''bob'', l_password = ''secret''\<rparr> ex_db
     = Inl (HTTPException 401 ''Invalid username or password'')
   \<and> login ex_verify ''key'' 20 \<lparr>l_username = ''alice'', l_password = ''guess''\<rparr> ex_db
     = login ex_verify ''key'' 10 \<lparr>l_username = ''bob'', l_password = ''secret''\<rparr> ex_db
   \<and> find_one (\<lambda>u. u_username u = ''bob'') (users ex_db) = None
   \<and> find_one (\<lambda>u. u_username u = ''alice'') (users ex_db) = Some ex_alice
   \<and> \<not> ex_verify ''guess'' (u_password ex_alice)"
proof -
  have a: "find_one (\<lambda>u. u_username u = ''bob'') (users ex_db) = None"
    by (simp add: find_one_def ex_db_def ex_alice_def)
  have b: "find_one (\<lambda>u. u_username u = ''alice'') (users ex_db) = Some ex_alice"
    by (simp add: find_one_def ex_db_def ex_alice_def)
  have c: "\<not> ex_verify ''guess'' (u_password ex_alice)"
    by (simp add: ex_verify_def ex_alice_def)
  show ?thesis
    using login_failure_uniform [where login_data = "\<lparr>l_username = ''bob'', l_password = ''secret''\<rparr>"
        and d = ex_db and login_data' = "\<lparr>l_username = ''alice'', l_password = ''guess''\<rparr>"
        and d' = ex_db and verify_password = ex_verify and JWT_SECRET = "''key''" and now = 10
        and now' = 20]
      a b c by simp
qed

section \<open>Token validation\<close>

text \<open>What \<open>get_current_user\<close> answers, case by case.\<close>

lemma valid_token_answer:
  assumes "now < p_exp p" and "p_sub p = Some user_id"
    and "find_one (\<lambda>u. u_id u = user_id) (users d) = Some user"
  shows "get_current_user JWT_SECRET now d (jwt_encode p JWT_SECRET) = Inr user"
  using assms by (simp add: get_current_user_def try_block_def jwt_encode_def)

lemma expired_token_answer:
  assumes "issued + 24 * 3600 < now"
  shows "get_current_user JWT_SECRET now d (create_access_token JWT_SECRET issued sub role)
           = Inl (HTTPException 401 ''Token has expired'')"
  using assms
  by (simp add: get_current_user_def try_block_def create_access_token_def jwt_encode_def
      JWT_EXPIRATION_HOURS_def)

lemma malformed_token_answer:
  "get_current_user JWT_SECRET now d (Malformed t)
     = Inl (HTTPException 500 ''Internal Server Error'')"
  by (simp add: get_current_user_def try_block_def)

lemma wrong_signature_answer:
  assumes "k \<noteq> JWT_SECRET"
  shows "get_current_user JWT_SECRET now d (Signed k p)
           = Inl (HTTPException 500 ''Internal Server Error'')"
  using assms by (simp add: get_current_user_def try_block_def)

lemma missing_user_answer:
  assumes "now < p_exp p" and "p_sub p = Some user_id"
    and "\<forall>u\<in>set (users d). u_id u \<noteq> user_id"
  shows "get_current_user JWT_SECRET now d (jwt_encode p JWT_SECRET)
           = Inl (HTTPException 500 ''Internal Server Error'')"
proof -
  have "find_one (\<lambda>u. u_id u = user_id) (users d) = None"
    using assms(3) by (simp add: find_one_None_iff)
  then show ?thesis
    using assms(1,2) by (simp add: get_current_user_def try_block_def jwt_encode_def)
qed

text \<open>
  C3 says that a token presented later than 24 hours after issue is answered with the
  401 "Token has expired", and a malformed or wrongly signed token with the 401 "Could
  not validate credentials". The first half holds (\<open>expired_token_answer\<close>). The second
  does not hold of the handler: the clause meant to give that answer names
  \<open>jwt.JWTError\<close>, which the imported module does not have. With the secret \<open>key\<close>, at
  time 90000, the string \<open>garbage\<close> and a token signed with the key \<open>other\<close> are both
  answered with status 500, while a token issued at time 0 is answered with the 401
  "Token has expired".
\<close>

theorem invalid_token_answered_500:
  "get_current_user ''key'' 90000 ex_db (Malformed ''garbage'')
     = Inl (HTTPException 500 ''Internal Server Error'')
   \<and> get_current_user ''key'' 90000 ex_db
        (Signed ''other'' \<lparr>p_sub = Some ''u1'', p_role = Some ''teacher'', p_exp = 100000\<rparr>)
     = Inl (HTTPException 500 ''Internal Server Error'')
   \<and> get_current_user ''key'' 90000 ex_db
        (create_access_token ''key'' 0 (Some ''u1'') (Some ''teacher''))
     = Inl (HTTPException 401 ''Token has expired'')"
  by (simp add: get_current_user_def try_block_def create_access_token_def jwt_encode_def
      JWT_EXPIRATION_HOURS_def)

text \<open>
  C4 says that a well-signed, unexpired token whose subject matches no stored user is
  answered with a NotFound error. The handler raises its 401 "User not found" inside the
  \<open>try\<close> block, where the clause \<open>except jwt.JWTError\<close> is then evaluated and fails, so
  the answer is status 500 with no word about the user. No user object is returned. A
  token for the absent user \<open>u9\<close>, issued at time 0 with the secret \<open>key\<close> and presented
  100 seconds later:
\<close>

theorem missing_user_token_answered_500:
  "get_current_user ''key'' 100 ex_db
     (create_access_token ''key'' 0 (Some ''u9'') (Some ''student''))
     = Inl (HTTPException 500 ''Internal Server Error'')
   \<and> ''u9'' \<notin> set (map u_id (users ex_db))
   \<and> try_block ''key'' 100 ex_db
        (create_access_token ''key'' 0 (Some ''u9'') (Some ''student''))
     = Inl (Http (HTTPException 401 ''User not found''))"
  by (simp add: get_current_user_def try_block_def create_access_token_def jwt_encode_def
      JWT_EXPIRATION_HOURS_def find_one_def ex_db_def ex_alice_def)

section \<open>Student records\<close>

text \<open>
  C5. Deleting a student is for admins only. A caller whose role is not admin (a teacher,
  say) gets status 403 and the database stays as it was. For an admin and the id of a
  stored student, the delete succeeds; no student with that id is left, so a get on that
  id is answered with status 404 "Student not found". Ids are generated by \<open>uuid4\<close>
  and therefore pairwise different among the stored students.
\<close>

theorem delete_student_admin_only:
  "(u_role current_user \<noteq> Admin \<longrightarrow>
      delete_student current_user student_id d = (Inl (HTTPException 403 ''Not authorized''), d))
   \<and> (u_role current_user = Admin \<and> (\<exists>s\<in>set (students d). s_id s = student_id)
        \<and> distinct (map s_id (students d)) \<longrightarrow>
      (\<exists>d'. delete_student current_user student_id d = (Inr ''Student deleted successfully'', d')
         \<and> (\<forall>s\<in>set (students d'). s_id s \<noteq> student_id)
         \<and> get_student reader student_id d' = Inl (HTTPException 404 ''Student not found'')))"
proof (intro conjI impI)
  assume "u_role current_user \<noteq> Admin"
  then show "delete_student current_user student_id d = (Inl (HTTPException 403 ''Not authorized''), d)"
    by (simp add: delete_student_def)
next
  assume a: "u_role current_user = Admin \<and> (\<exists>s\<in>set (students d). s_id s = student_id)
        \<and> distinct (map s_id (students d))"
  obtain coll n where dl: "delete_one (\<lambda>s. s_id s = student_id) (students d) = (coll, n)"
    by (cases "delete_one (\<lambda>s. s_id s = student_id) (students d)")
  have "n \<noteq> 0"
    using a delete_one_count_zero [of "\<lambda>s. s_id s = student_id" "students d"] dl by auto
  moreover have gone: "\<forall>s\<in>set coll. s_id s \<noteq> student_id"
    using a delete_one_distinct_key [of s_id "students d" student_id] dl by auto
  moreover have "find_one (\<lambda>s. s_id s = student_id) coll = None"
    using gone by (simp add: find_one_None_iff)
  ultimately show "\<exists>d'. delete_student current_user student_id d = (Inr ''Student deleted successfully'', d')
         \<and> (\<forall>s\<in>set (students d'). s_id s \<noteq> student_id)
         \<and> get_student reader student_id d' = Inl (HTTPException 404 ''Student not found'')"
    using a dl by (simp add: delete_student_def get_student_def)
qed

theorem delete_student_admin_only_witness:
  "u_role ex_alice \<noteq> Admin
   \<and> delete_student ex_alice ''s1'' ex_db2 = (Inl (HTTPException 403 ''Not authorized''), ex_db2)
   \<and> u_role ex_admin = Admin \<and> ''s1'' \<in> set (map s_id (students ex_db2))
   \<and> distinct (map s_id (students ex_db2))
   \<and> delete_student ex_admin ''s1'' ex_db2
       = (Inr ''Student deleted successfully'', ex_db2\<lparr>students := []\<rparr>)
   \<and> get_student ex_alice ''s1'' (ex_db2\<lparr>students := []\<rparr>)
       = Inl (HTTPException 404 ''Student not found'')"
proof -
  have a: "u_role ex_alice \<noteq> Admin" by (simp add: ex_alice_def)
  have b: "u_role ex_admin = Admin" by (simp add: ex_admin_def)
  have c: "\<exists>s\<in>set (students ex_db2). s_id s = ''s1''" by (simp add: ex_db2_def ex_student_def)
  have c': "''s1'' \<in> set (map s_id (students ex_db2))" by (simp add: ex_db2_def ex_student_def)
  have e: "distinct (map s_id (students ex_db2))" by (simp add: ex_db2_def)
  have f: "delete_student ex_admin ''s1'' ex_db2
             = (Inr ''Student deleted successfully'', ex_db2\<lparr>students := []\<rparr>)"
    by (simp add: delete_student_def ex_admin_def ex_db2_def ex_student_def)
  from delete_student_admin_only [where current_user = ex_alice and student_id = "''s1''" and d = ex_db2] a
  have g: "delete_student ex_alice ''s1'' ex_db2 = (Inl (HTTPException 403 ''Not authorized''), ex_db2)"
    by simp
  from delete_student_admin_only [where current_user = ex_admin and student_id = "''s1''" and d = ex_db2
      and reader = ex_alice] b c e f
  have h: "get_student ex_alice ''s1'' (ex_db2\<lparr>students := []\<rparr>)
             = Inl (HTTPException 404 ''Student not found'')"
    by auto
  from a b c' e f g h show ?thesis by simp
qed

text \<open>
  C7. Round trip: when an admin or a teacher creates a student from the fields \<open>F\<close>, with
  the fresh id \<open>new_id\<close> generated for it, the create succeeds, and a get by that id
  returns the created entity: the eight fields of \<open>F\<close> unchanged, the generated id, which
  no other stored student has, and the \<open>created_at\<close> timestamp.
\<close>

theorem create_student_get_roundtrip:
  assumes "u_role current_user = Admin \<or> u_role current_user = Teacher"
    and "\<forall>s\<in>set (students d). s_id s \<noteq> new_id"
  shows "\<exists>student d'.
           create_student current_user new_id now F d = (Inr student, d')
         \<and> get_student reader new_id d' = Inr student
         \<and> s_full_name student = s_full_name F \<and> s_roll_number student = s_roll_number F
         \<and> s_class_name student = s_class_name F \<and> s_section student = s_section F
         \<and> s_parent_id student = s_parent_id F \<and> s_date_of_birth student = s_date_of_birth F
         \<and> s_address student = s_address F \<and> s_phone student = s_phone F
         \<and> s_id student = new_id \<and> s_created_at student = now
         \<and> (\<forall>s\<in>set (students d'). s_id s = new_id \<longrightarrow> s = student)"
proof -
  let ?st = "StudentCreate.extend F (StudentDoc.fields new_id (u_id current_user) now)"
  have none: "find_one (\<lambda>s. s_id s = new_id) (students d) = None"
    using assms(2) by (simp add: find_one_None_iff)
  have id: "s_id ?st = new_id"
    by (simp add: StudentCreate.defs StudentDoc.defs)
  have "find_one (\<lambda>s. s_id s = new_id) (students d @ [?st]) = Some ?st"
    using none id by (simp add: find_one_append) (simp add: find_one_def)
  moreover have "create_student current_user new_id now F d
                   = (Inr ?st, d\<lparr>students := students d @ [?st]\<rparr>)"
    using assms(1) by (auto simp: create_student_def insert_one_def Let_def)
  moreover have "s_full_name ?st = s_full_name F \<and> s_roll_number ?st = s_roll_number F
         \<and> s_class_name ?st = s_class_name F \<and> s_section ?st = s_section F
         \<and> s_parent_id ?st = s_parent_id F \<and> s_date_of_birth ?st = s_date_of_birth F
         \<and> s_address ?st = s_address F \<and> s_phone ?st = s_phone F
         \<and> s_created_at ?st = now"
    by (simp add: StudentCreate.defs StudentDoc.defs)
  ultimately show ?thesis
    using id assms(2) by (auto simp: get_student_def)
qed

theorem create_student_get_roundtrip_witness:
  "u_role ex_alice = Teacher \<and> ''s2'' \<notin> set (map s_id (students ex_db2))
   \<and> get_student ex_admin ''s2'' (snd (create_student ex_alice ''s2'' 9 ex_form ex_db2))
       = fst (create_student ex_alice ''s2'' 9 ex_form ex_db2)
   \<and> get_student ex_admin ''s2'' (snd (create_student ex_alice ''s2'' 9 ex_form ex_db2))
       = Inr \<lparr>s_full_name = ''Carol'', s_roll_number = ''7'', s_class_name = ''5'', s_section = ''B'',
               s_parent_id = Some ''u5'', s_date_of_birth = None, s_address = None, s_phone = None,
               s_id = ''s2'', s_user_id = ''u1'', s_created_at = 9\<rparr>"
proof -
  have a: "u_role ex_alice = Admin \<or> u_role ex_alice = Teacher" by (simp add: ex_alice_def)
  have a': "u_role ex_alice = Teacher" by (simp add: ex_alice_def)
  have b: "\<forall>s\<in>set (students ex_db2). s_id s \<noteq> ''s2''" by (simp add: ex_db2_def ex_student_def)
  have b': "''s2'' \<notin> set (map s_id (students ex_db2))" by (simp add: ex_db2_def ex_student_def)
  have c: "fst (create_student ex_alice ''s2'' 9 ex_form ex_db2)
            = Inr \<lparr>s_full_name = ''Carol'', s_roll_number = ''7'', s_class_name = ''5'', s_section = ''B'',
               s_parent_id = Some ''u5'', s_date_of_birth = None, s_address = None, s_phone = None,
               s_id = ''s2'', s_user_id = ''u1'', s_created_at = 9\<rparr>"
    by (simp add: create_student_def ex_alice_def ex_form_def StudentCreate.defs StudentDoc.defs
        Let_def)
  from create_student_get_roundtrip [OF a b, where now = 9 and F = ex_form and reader = ex_admin]
  have "get_student ex_admin ''s2'' (snd (create_student ex_alice ''s2'' 9 ex_form ex_db2))
          = fst (create_student ex_alice ''s2'' 9 ex_form ex_db2)"
    by auto
  with a' b' c show ?thesis by simp
qed

text \<open>
  C10. Frame condition of update: when an admin or a teacher updates the student found
  under \<open>student_id\<close>, the update succeeds; the eight payload fields of the returned and
  stored record are those of the payload, its \<open>id\<close>, \<open>user_id\<close> and \<open>created_at\<close> are
  those of the record found, and the database differs from the old one in that one
  record only.
\<close>

theorem update_student_frame:
  assumes "u_role current_user = Admin \<or> u_role current_user = Teacher"
    and "find_one (\<lambda>s. s_id s = student_id) (students d) = Some existing"
  shows "\<exists>updated i.
           update_student current_user student_id F d
             = (Inr updated, d\<lparr>students := (students d)[i := updated]\<rparr>)
         \<and> i < length (students d) \<and> students d ! i = existing
         \<and> s_id updated = s_id existing
         \<and> s_user_id updated = s_user_id existing
         \<and> s_created_at updated = s_created_at existing
         \<and> s_full_name updated = s_full_name F \<and> s_roll_number updated = s_roll_number F
         \<and> s_class_name updated = s_class_name F \<and> s_section updated = s_section F
         \<and> s_parent_id updated = s_parent_id F \<and> s_date_of_birth updated = s_date_of_birth F
         \<and> s_address updated = s_address F \<and> s_phone updated = s_phone F"
proof -
  let ?q = "\<lambda>s. s_id s = student_id"
  let ?f = "set_update_data F"
  from find_one_Some_sat [OF assms(2)] have idx: "s_id existing = student_id" by simp
  then have qf: "?q (?f existing)" by (simp add: set_update_data_def)
  from update_one_first [OF assms(2), of ?f] obtain i where i: "i < length (students d)"
    "students d ! i = existing" "update_one ?q ?f (students d) = (students d)[i := ?f existing]"
    by blast
  have fo: "find_one ?q (update_one ?q ?f (students d)) = Some (?f existing)"
    using find_one_update_one [where q = ?q and f = ?f, OF assms(2)] qf by simp
  have res: "update_student current_user student_id F d
          = (Inr (?f existing), d\<lparr>students := (students d)[i := ?f existing]\<rparr>)"
    using assms fo i(3) by (auto simp: update_student_def Let_def)
  have fields: "s_id (?f existing) = s_id existing
         \<and> s_user_id (?f existing) = s_user_id existing
         \<and> s_created_at (?f existing) = s_created_at existing
         \<and> s_full_name (?f existing) = s_full_name F \<and> s_roll_number (?f existing) = s_roll_number F
         \<and> s_class_name (?f existing) = s_class_name F \<and> s_section (?f existing) = s_section F
         \<and> s_parent_id (?f existing) = s_parent_id F \<and> s_date_of_birth (?f existing) = s_date_of_birth F
         \<and> s_address (?f existing) = s_address F \<and> s_phone (?f existing) = s_phone F"
    by (simp add: set_update_data_def)
  from res i(1,2) fields show ?thesis by blast
qed

theorem update_student_frame_witness:
  "u_role ex_alice = Teacher
   \<and> find_one (\<lambda>s. s_id s = ''s1'') (students ex_db2) = Some ex_student
   \<and> update_student ex_alice ''s1'' ex_form ex_db2
       = (Inr \<lparr>s_full_name = ''Carol'', s_roll_number = ''7'', s_class_name = ''5'', s_section = ''B'',
               s_parent_id = Some ''u5'', s_date_of_birth = None, s_address = None, s_phone = None,
               s_id = ''s1'', s_user_id = ''u1'', s_created_at = 4\<rparr>,
          ex_db2\<lparr>students := [\<lparr>s_full_name = ''Carol'', s_roll_number = ''7'', s_class_name = ''5'',
               s_section = ''B'', s_parent_id = Some ''u5'', s_date_of_birth = None, s_address = None,
               s_phone = None, s_id = ''s1'', s_user_id = ''u1'', s_created_at = 4\<rparr>]\<rparr>)"
proof -
  have a: "u_role ex_alice = Admin \<or> u_role ex_alice = Teacher" by (simp add: ex_alice_def)
  have a': "u_role ex_alice = Teacher" by (simp add: ex_alice_def)
  have b: "find_one (\<lambda>s. s_id s = ''s1'') (students ex_db2) = Some ex_student"
    by (simp add: find_one_def ex_db2_def ex_student_def)
  from update_student_frame [OF a b, of ex_form] obtain updated i where
    u: "update_student ex_alice ''s1'' ex_form ex_db2
          = (Inr updated, ex_db2\<lparr>students := (students ex_db2)[i := updated]\<rparr>)"
    "i < length (students ex_db2)"
    "s_id updated = s_id ex_student" "s_user_id updated = s_user_id ex_student"
    "s_created_at updated = s_created_at ex_student"
    "s_full_name updated = s_full_name ex_form" "s_roll_number updated = s_roll_number ex_form"
    "s_class_name updated = s_class_name ex_form" "s_section updated = s_section ex_form"
    "s_parent_id updated = s_parent_id ex_form" "s_date_of_birth updated = s_date_of_birth ex_form"
    "s_address updated = s_address ex_form" "s_phone updated = s_phone ex_form"
    by blast
  from u(2) have i0: "i = 0" by (simp add: ex_db2_def)
  have "updated = \<lparr>s_full_name = ''Carol'', s_roll_number = ''7'', s_class_name = ''5'', s_section = ''B'',
               s_parent_id = Some ''u5'', s_date_of_birth = None, s_address = None, s_phone = None,
               s_id = ''s1'', s_user_id = ''u1'', s_created_at = 4\<rparr>"
    using u(3-13) by (cases updated) (simp add: ex_student_def ex_form_def)
  with u(1) i0 a' b show ?thesis by (simp add: ex_db2_def)
qed

section \<open>Announcements\<close>

text \<open>
  C6. Listing announcements gives the announcements visible to the caller, newest first,
  at most 100 of them: all stored announcements are visible to an admin, and to any other
  caller exactly those whose \<open>target_role\<close> is unset or is the caller's role. Every
  listed announcement is a visible stored one; when at most 100 are visible all of them
  are listed, otherwise the ones left out are no newer than any listed one. For a parent
  no listed announcement has \<open>target_role\<close> "teacher", and (within the cap) every
  stored one with \<open>target_role\<close> unset or "parent" is listed.
\<close>

theorem get_announcements_role_filter:
  "(let visible = (\<lambda>a. u_role current_user = Admin \<or> n_target_role a = None
                       \<or> n_target_role a = Some (role_str (u_role current_user)));
        stored = filter visible (announcements d);
        listed = get_announcements current_user d
    in sorted_wrt (\<lambda>a b. n_created_at b \<le> n_created_at a) listed
     \<and> length listed = min 100 (length stored)
     \<and> mset listed \<subseteq># mset stored
     \<and> (length stored \<le> 100 \<longrightarrow> mset listed = mset stored)
     \<and> (\<forall>a b. a \<in># mset stored - mset listed \<longrightarrow> b \<in> set listed
            \<longrightarrow> n_created_at a \<le> n_created_at b)
     \<and> (u_role current_user = Admin \<longrightarrow> stored = announcements d)
     \<and> (u_role current_user = Parent \<longrightarrow>
          (\<forall>a\<in>set listed. n_target_role a \<noteq> Some ''teacher'')
        \<and> (length stored \<le> 100 \<longrightarrow>
             (\<forall>a\<in>set (announcements d).
                n_target_role a = None \<or> n_target_role a = Some ''parent'' \<longrightarrow> a \<in> set listed))))"
proof -
  let ?visible = "\<lambda>a. u_role current_user = Admin \<or> n_target_role a = None
                       \<or> n_target_role a = Some (role_str (u_role current_user))"
  let ?stored = "filter ?visible (announcements d)"
  let ?listed = "get_announcements current_user d"
  have eq: "?listed = take 100 (sort_desc n_created_at ?stored)"
    by (rule get_announcements_eq)
  have p1: "sorted_wrt (\<lambda>a b. n_created_at b \<le> n_created_at a) ?listed"
    unfolding eq by (rule take_sort_desc_newest_first)
  have p2: "length ?listed = min 100 (length ?stored)"
    unfolding eq by (rule length_take_sort_desc)
  have p3: "mset ?listed \<subseteq># mset ?stored"
    unfolding eq by (rule mset_take_sort_desc_subset)
  have p4: "length ?stored \<le> 100 \<longrightarrow> mset ?listed = mset ?stored"
    unfolding eq by (simp add: mset_take_sort_desc_all)
  have p5: "\<forall>a b. a \<in># mset ?stored - mset ?listed \<longrightarrow> b \<in> set ?listed
            \<longrightarrow> n_created_at a \<le> n_created_at b"
    unfolding eq using dropped_are_older [of _ ?stored 100 n_created_at] by blast
  have p6: "u_role current_user = Admin \<longrightarrow> ?stored = announcements d"
    by simp
  have sub: "set ?listed \<subseteq> set ?stored"
    using set_mset_mono [OF p3] by simp
  have p7: "u_role current_user = Parent \<longrightarrow> (\<forall>a\<in>set ?listed. n_target_role a \<noteq> Some ''teacher'')"
    using sub by auto
  have p8: "u_role current_user = Parent \<longrightarrow> length ?stored \<le> 100 \<longrightarrow>
             (\<forall>a\<in>set (announcements d).
                n_target_role a = None \<or> n_target_role a = Some ''parent'' \<longrightarrow> a \<in> set ?listed)"
  proof (intro impI ballI)
    fix a
    assume par: "u_role current_user = Parent" and fits: "length ?stored \<le> 100"
      and a: "a \<in> set (announcements d)"
      and t: "n_target_role a = None \<or> n_target_role a = Some ''parent''"
    from p4 fits have "set ?listed = set ?stored" by (metis set_mset_mset)
    moreover from par a t have "a \<in> set ?stored" by auto
    ultimately show "a \<in> set ?listed" by simp
  qed
  from p1 p2 p3 p4 p5 p6 p7 p8 show ?thesis
    unfolding Let_def by blast
qed

theorem get_announcements_role_filter_witness:
  "u_role ex_parent = Parent
   \<and> get_announcements ex_parent ex_db3 = [ex_note_parent, ex_note_all]
   \<and> get_announcements ex_admin ex_db3 = [ex_note_teacher, ex_note_parent, ex_note_all]
   \<and> ex_note_teacher \<notin> set (get_announcements ex_parent ex_db3)
   \<and> ex_note_all \<in> set (get_announcements ex_parent ex_db3)
   \<and> ex_note_parent \<in> set (get_announcements ex_parent ex_db3)"
proof -
  have a: "u_role ex_parent = Parent" by (simp add: ex_parent_def)
  have b: "get_announcements ex_parent ex_db3 = [ex_note_parent, ex_note_all]"
    by (simp add: get_announcements_def to_list_def find_many_def sort_desc_def Let_def
        ex_parent_def ex_db3_def ex_note_teacher_def ex_note_all_def ex_note_parent_def)
  have c: "get_announcements ex_admin ex_db3 = [ex_note_teacher, ex_note_parent, ex_note_all]"
    by (simp add: get_announcements_def to_list_def find_many_def sort_desc_def Let_def
        ex_admin_def ex_db3_def ex_note_teacher_def ex_note_all_def ex_note_parent_def)
  have t: "n_target_role ex_note_teacher = Some ''teacher''" by (simp add: ex_note_teacher_def)
  have len: "length (filter (\<lambda>a. u_role ex_parent = Admin \<or> n_target_role a = None
                       \<or> n_target_role a = Some (role_str (u_role ex_parent))) (announcements ex_db3)) \<le> 100"
    by (simp add: ex_db3_def)
  have mem: "ex_note_all \<in> set (announcements ex_db3)" "n_target_role ex_note_all = None"
    "ex_note_parent \<in> set (announcements ex_db3)" "n_target_role ex_note_parent = Some ''parent''"
    by (simp_all add: ex_db3_def ex_note_all_def ex_note_parent_def)
  from get_announcements_role_filter [of ex_parent ex_db3] a len
  have g: "(\<forall>a\<in>set (get_announcements ex_parent ex_db3). n_target_role a \<noteq> Some ''teacher'')"
    "(\<forall>a\<in>set (announcements ex_db3).
        n_target_role a = None \<or> n_target_role a = Some ''parent''
          \<longrightarrow> a \<in> set (get_announcements ex_parent ex_db3))"
    unfolding Let_def by blast+
  from g(1) t have d: "ex_note_teacher \<notin> set (get_announcements ex_parent ex_db3)" by blast
  from g(2) mem have e: "ex_note_all \<in> set (get_announcements ex_parent ex_db3)"
    "ex_note_parent \<in> set (get_announcements ex_parent ex_db3)" by blast+
  from a b c d e show ?thesis by blast
qed

section \<open>Dashboard\<close>

text \<open>
  C8. For a caller with role student: when no stored Student record has the caller's
  user id as its \<open>user_id\<close>, the dashboard stats are the empty object (the handler has no
  error path, it returns \<open>stats\<close>); when one has, the stats are the attendance count,
  the present-day count and the grade count of the first such record.
\<close>

theorem student_dashboard_stats:
  assumes "u_role current_user = Student"
  shows "((\<forall>s\<in>set (students d). s_user_id s \<noteq> u_id current_user) \<longrightarrow>
            get_dashboard_stats today current_user d = [])
       \<and> (\<forall>student. find_one (\<lambda>s. s_user_id s = u_id current_user) (students d) = Some student \<longrightarrow>
            get_dashboard_stats today current_user d =
              [(''total_attendance'', length [a \<leftarrow> attendance d. a_student_id a = s_id student]),
               (''present_days'',
                  length [a \<leftarrow> attendance d. a_student_id a = s_id student \<and> a_status a = Present]),
               (''total_grades'', length [g \<leftarrow> grades d. g_student_id g = s_id student])])"
proof (intro conjI impI allI)
  assume "\<forall>s\<in>set (students d). s_user_id s \<noteq> u_id current_user"
  then have "find_one (\<lambda>s. s_user_id s = u_id current_user) (students d) = None"
    by (simp add: find_one_None_iff)
  with assms show "get_dashboard_stats today current_user d = []"
    by (simp add: get_dashboard_stats_def)
next
  fix student
  assume "find_one (\<lambda>s. s_user_id s = u_id current_user) (students d) = Some student"
  with assms show "get_dashboard_stats today current_user d =
              [(''total_attendance'', length [a \<leftarrow> attendance d. a_student_id a = s_id student]),
               (''present_days'',
                  length [a \<leftarrow> attendance d. a_student_id a = s_id student \<and> a_status a = Present]),
               (''total_grades'', length [g \<leftarrow> grades d. g_student_id g = s_id student])]"
    by (simp add: get_dashboard_stats_def count_documents_def)
qed

theorem student_dashboard_stats_witness:
  "u_role ex_pupil = Student
   \<and> u_id ex_pupil \<notin> set (map s_user_id (students ex_db2))
   \<and> get_dashboard_stats ''2025-01-12'' ex_pupil ex_db2 = []
   \<and> find_one (\<lambda>s. s_user_id s = u_id ex_pupil) (students ex_db4) = Some ex_student_dan
   \<and> get_dashboard_stats ''2025-01-12'' ex_pupil ex_db4
       = [(''total_attendance'', 3), (''present_days'', 2), (''total_grades'', 1)]"
proof -
  have a: "u_role ex_pupil = Student" by (simp add: ex_pupil_def)
  have b: "\<forall>s\<in>set (students ex_db2). s_user_id s \<noteq> u_id ex_pupil"
    by (simp add: ex_db2_def ex_student_def ex_pupil_def)
  have b': "u_id ex_pupil \<notin> set (map s_user_id (students ex_db2))"
    by (simp add: ex_db2_def ex_student_def ex_pupil_def)
  have c: "find_one (\<lambda>s. s_user_id s = u_id ex_pupil) (students ex_db4) = Some ex_student_dan"
    by (simp add: find_one_def ex_db4_def ex_student_def ex_student_dan_def ex_pupil_def)
  have n: "length [a \<leftarrow> attendance ex_db4. a_student_id a = s_id ex_student_dan] = 3"
    "length [a \<leftarrow> attendance ex_db4. a_student_id a = s_id ex_student_dan \<and> a_status a = Present] = 2"
    "length [g \<leftarrow> grades ex_db4. g_student_id g = s_id ex_student_dan] = 1"
    by (simp_all add: ex_db4_def ex_student_dan_def ex_mark_def ex_grade_def)
  from student_dashboard_stats [OF a, of ex_db2 "''2025-01-12''"] b
  have e: "get_dashboard_stats ''2025-01-12'' ex_pupil ex_db2 = []" by blast
  from student_dashboard_stats [OF a, of ex_db4 "''2025-01-12''"] c
  have "get_dashboard_stats ''2025-01-12'' ex_pupil ex_db4 =
          [(''total_attendance'', length [a \<leftarrow> attendance ex_db4. a_student_id a = s_id ex_student_dan]),
           (''present_days'',
              length [a \<leftarrow> attendance ex_db4. a_student_id a = s_id ex_student_dan \<and> a_status a = Present]),
           (''total_grades'', length [g \<leftarrow> grades ex_db4. g_student_id g = s_id ex_student_dan])]"
    by blast
  with n have f: "get_dashboard_stats ''2025-01-12'' ex_pupil ex_db4
       = [(''total_attendance'', 3), (''present_days'', 2), (''total_grades'', 1)]"
    by simp
  from a b' e c f show ?thesis by blast
qed

text \<open>
  C9. A successful create Student stores and returns a record whose \<open>user_id\<close> is the id
  of the actor who performed the create (the payload has no \<open>user_id\<close> field), appended
  to the collection. The student dashboard looks Student records up on that same field:
  for a caller with role student the stats are empty exactly when no stored record has
  the caller's id as \<open>user_id\<close>; so after the create, a student caller without an
  earlier record sees stats exactly when the caller's id is the actor's.
\<close>

theorem create_student_user_id_is_actor:
  assumes "u_role actor = Admin \<or> u_role actor = Teacher"
  shows "\<exists>student d'.
           create_student actor new_id now F d = (Inr student, d')
         \<and> students d' = students d @ [student]
         \<and> s_user_id student = u_id actor
         \<and> (u_role caller = Student \<longrightarrow>
              (get_dashboard_stats today caller d' = []
                 \<longleftrightarrow> (\<forall>s\<in>set (students d'). s_user_id s \<noteq> u_id caller))
            \<and> ((\<forall>s\<in>set (students d). s_user_id s \<noteq> u_id caller) \<longrightarrow>
                 (get_dashboard_stats today caller d' = [] \<longleftrightarrow> u_id caller \<noteq> u_id actor)))"
proof -
  let ?st = "StudentCreate.extend F (StudentDoc.fields new_id (u_id actor) now)"
  let ?d' = "d\<lparr>students := students d @ [?st]\<rparr>"
  have cr: "create_student actor new_id now F d = (Inr ?st, ?d')"
    using assms by (auto simp: create_student_def insert_one_def Let_def)
  have uid: "s_user_id ?st = u_id actor"
    by (simp add: StudentCreate.defs StudentDoc.defs)
  have look: "get_dashboard_stats today caller e = []
                \<longleftrightarrow> (\<forall>s\<in>set (students e). s_user_id s \<noteq> u_id caller)"
    if "u_role caller = Student" for e
  proof (cases "find_one (\<lambda>s. s_user_id s = u_id caller) (students e)")
    case None
    with that show ?thesis
      by (simp add: get_dashboard_stats_def find_one_None_iff [symmetric])
  next
    case (Some st)
    then have "\<not> (\<forall>s\<in>set (students e). s_user_id s \<noteq> u_id caller)"
      using find_one_Some_sat [OF Some] by blast
    with that Some show ?thesis
      by (simp add: get_dashboard_stats_def)
  qed
  have st': "students ?d' = students d @ [?st]"
    by simp
  have disp: "u_role caller = Student \<longrightarrow>
              (get_dashboard_stats today caller ?d' = []
                 \<longleftrightarrow> (\<forall>s\<in>set (students ?d'). s_user_id s \<noteq> u_id caller))
            \<and> ((\<forall>s\<in>set (students d). s_user_id s \<noteq> u_id caller) \<longrightarrow>
                 (get_dashboard_stats today caller ?d' = [] \<longleftrightarrow> u_id caller \<noteq> u_id actor))"
  proof (intro impI conjI)
    assume r: "u_role caller = Student"
    show l: "get_dashboard_stats today caller ?d' = []
                 \<longleftrightarrow> (\<forall>s\<in>set (students ?d'). s_user_id s \<noteq> u_id caller)"
      by (rule look [OF r])
    assume "\<forall>s\<in>set (students d). s_user_id s \<noteq> u_id caller"
    then have "(\<forall>s\<in>set (students ?d'). s_user_id s \<noteq> u_id caller) \<longleftrightarrow> u_id caller \<noteq> u_id actor"
      using uid by auto
    with l show "get_dashboard_stats today caller ?d' = [] \<longleftrightarrow> u_id caller \<noteq> u_id actor"
      by simp
  qed
  from cr st' uid disp show ?thesis
    by blast
qed


theorem create_student_user_id_is_actor_witness:
  "u_role ex_alice = Teacher \<and> u_role ex_pupil = Student \<and> u_id ex_pupil \<noteq> u_id ex_alice
   \<and> create_student ex_alice ''s2'' 9 ex_form ex_db
       = (Inr \<lparr>s_full_name = ''Carol'', s_roll_number = ''7'', s_class_name = ''5'', s_section = ''B'',
               s_parent_id = Some ''u5'', s_date_of_birth = None, s_address = None, s_phone = None,
               s_id = ''s2'', s_user_id = u_id ex_alice, s_created_at = 9\<rparr>,
          ex_db\<lparr>students := [\<lparr>s_full_name = ''Carol'', s_roll_number = ''7'', s_class_name = ''5'',
               s_section = ''B'', s_parent_id = Some ''u5'', s_date_of_birth = None, s_address = None,
               s_phone = None, s_id = ''s2'', s_user_id = u_id ex_alice, s_created_at = 9\<rparr>]\<rparr>)
   \<and> get_dashboard_stats ''2025-01-12'' ex_pupil
        (snd (create_student ex_alice ''s2'' 9 ex_form ex_db)) = []"
proof -
  have a: "u_role ex_alice = Admin \<or> u_role ex_alice = Teacher" by (simp add: ex_alice_def)
  have a': "u_role ex_alice = Teacher" by (simp add: ex_alice_def)
  have b: "u_role ex_pupil = Student" by (simp add: ex_pupil_def)
  have c: "u_id ex_pupil \<noteq> u_id ex_alice" by (simp add: ex_pupil_def ex_alice_def)
  have e: "\<forall>s\<in>set (students ex_db). s_user_id s \<noteq> u_id ex_pupil" by (simp add: ex_db_def)
  have f: "create_student ex_alice ''s2'' 9 ex_form ex_db
       = (Inr \<lparr>s_full_name = ''Carol'', s_roll_number = ''7'', s_class_name = ''5'', s_section = ''B'',
               s_parent_id = Some ''u5'', s_date_of_birth = None, s_address = None, s_phone = None,
               s_id = ''s2'', s_user_id = u_id ex_alice, s_created_at = 9\<rparr>,
          ex_db\<lparr>students := [\<lparr>s_full_name = ''Carol'', s_roll_number = ''7'', s_class_name = ''5'',
               s_section = ''B'', s_parent_id = Some ''u5'', s_date_of_birth = None, s_address = None,
               s_phone = None, s_id = ''s2'', s_user_id = u_id ex_alice, s_created_at = 9\<rparr>]\<rparr>)"
    by (simp add: create_student_def insert_one_def ex_alice_def ex_form_def ex_db_def
        StudentCreate.defs StudentDoc.defs Let_def)
  from create_student_user_id_is_actor [OF a, of "''s2''" 9 ex_form ex_db ex_pupil "''2025-01-12''"]
  obtain student d' where
    g: "create_student ex_alice ''s2'' 9 ex_form ex_db = (Inr student, d')"
    and h: "u_role ex_pupil = Student \<longrightarrow>
              ((\<forall>s\<in>set (students ex_db). s_user_id s \<noteq> u_id ex_pupil) \<longrightarrow>
                 (get_dashboard_stats ''2025-01-12'' ex_pupil d' = [] \<longleftrightarrow> u_id ex_pupil \<noteq> u_id ex_alice))"
    by blast
  from h b e c have "get_dashboard_stats ''2025-01-12'' ex_pupil d' = []" by blast
  with g have i: "get_dashboard_stats ''2025-01-12'' ex_pupil
        (snd (create_student ex_alice ''s2'' 9 ex_form ex_db)) = []"
    by simp
  from a' b c f i show ?thesis by blast
qed

end
